theory Spec2Isabelle
  imports Complex_Main
begin

section \<open>Python values, exceptions and strings\<close>

text \<open>
  The fundamentals snapshot \<^verbatim>\<open>info\<close> is a Python dict whose values are strings,
  numbers or \<^verbatim>\<open>None\<close>. Numbers are kept exact: a Python float is modelled by the
  rational it denotes, so \<^verbatim>\<open>0.4\<close> is \<open>2/5\<close> and \<^verbatim>\<open>50e6\<close> is \<open>50000000\<close>.
  Characters are ASCII.
\<close>

datatype pyval = PNone | PStr string | PInt int | PFloat rat

text \<open>An exception: its class name and the text \<^verbatim>\<open>str(e)\<close> gives.\<close>

datatype exn = Exn string string

fun str_exc :: "exn \<Rightarrow> string" where
  "str_exc (Exn c m) = m"

type_synonym info = "string \<rightharpoonup> pyval"

text \<open>The price history: the \<^verbatim>\<open>Low\<close> column of the data frame, one entry per row.\<close>

type_synonym history = "rat list"

definition bind_exn :: "exn + 'a \<Rightarrow> ('a \<Rightarrow> exn + 'b) \<Rightarrow> exn + 'b" where
  "bind_exn m f = (case m of Inl e \<Rightarrow> Inl e | Inr x \<Rightarrow> f x)"

text \<open>\<^verbatim>\<open>info.get(key, default)\<close>\<close>

definition py_get :: "info \<Rightarrow> string \<Rightarrow> pyval \<Rightarrow> pyval" where
  "py_get d k dflt = (case d k of None \<Rightarrow> dflt | Some v \<Rightarrow> v)"

fun type_name :: "pyval \<Rightarrow> string" where
  "type_name PNone = ''NoneType''"
| "type_name (PStr s) = ''str''"
| "type_name (PInt i) = ''int''"
| "type_name (PFloat r) = ''float''"

fun truthy :: "pyval \<Rightarrow> bool" where
  "truthy PNone = False"
| "truthy (PStr s) = (s \<noteq> [])"
| "truthy (PInt i) = (i \<noteq> 0)"
| "truthy (PFloat r) = (r \<noteq> 0)"

fun num_of :: "pyval \<Rightarrow> rat option" where
  "num_of (PInt i) = Some (of_int i)"
| "num_of (PFloat r) = Some r"
| "num_of v = None"

definition quoted :: "string \<Rightarrow> string" where
  "quoted s = [CHR 0x27] @ s @ [CHR 0x27]"

text \<open>
  A comparison \<^verbatim>\<open>a <op> b\<close> of a dict value with a numeric literal: between numbers
  it compares, and a string or \<^verbatim>\<open>None\<close> on the left raises \<^verbatim>\<open>TypeError\<close>.
\<close>

definition py_cmp :: "string \<Rightarrow> (rat \<Rightarrow> rat \<Rightarrow> bool) \<Rightarrow> pyval \<Rightarrow> pyval \<Rightarrow> exn + bool" where
  "py_cmp opname f a b =
     (case (num_of a, num_of b) of
        (Some x, Some y) \<Rightarrow> Inr (f x y)
      | _ \<Rightarrow> Inl (Exn ''TypeError''
               (quoted opname @ '' not supported between instances of '' @
                quoted (type_name a) @ '' and '' @ quoted (type_name b))))"

fun starts_with :: "string \<Rightarrow> string \<Rightarrow> bool" where
  "starts_with [] s = True"
| "starts_with (a # as) [] = False"
| "starts_with (a # as) (b # bs) = (a = b \<and> starts_with as bs)"

definition ends_with :: "string \<Rightarrow> string \<Rightarrow> bool" where
  "ends_with suf s = starts_with (rev suf) (rev s)"

text \<open>\<^verbatim>\<open>sub in s\<close> on strings.\<close>

fun py_in :: "string \<Rightarrow> string \<Rightarrow> bool" where
  "py_in sub [] = (sub = [])"
| "py_in sub (c # cs) = (starts_with sub (c # cs) \<or> py_in sub cs)"

definition lower_char :: "char \<Rightarrow> char" where
  "lower_char c =
     (case map_of (zip ''ABCDEFGHIJKLMNOPQRSTUVWXYZ'' ''abcdefghijklmnopqrstuvwxyz'') c of
        None \<Rightarrow> c | Some l \<Rightarrow> l)"

definition lower :: "string \<Rightarrow> string" where
  "lower s = map lower_char s"

text \<open>\<^verbatim>\<open>v.lower()\<close> on a dict value: only a string has the method.\<close>

definition py_lower :: "pyval \<Rightarrow> exn + string" where
  "py_lower v =
     (case v of
        PStr s \<Rightarrow> Inr (lower s)
      | _ \<Rightarrow> Inl (Exn ''AttributeError''
               (quoted (type_name v) @ '' object has no attribute '' @ quoted ''lower'')))"


section \<open>The qualifier\<close>

text \<open>
  \<^verbatim>\<open>hist['Low'].min()\<close> is a \<^verbatim>\<open>numpy.float64\<close>, so the subtraction and the division
  of the last rule are numpy's: a division by zero raises nothing and gives an
  infinity (or NaN for \<open>0/0\<close>), and the comparison with \<^verbatim>\<open>0.35\<close> is IEEE's.
  The numbers themselves stay exact: the rounding of float64, its overflow (with the
  \<^verbatim>\<open>OverflowError\<close> of a Python int beyond the float range), the negative zero and
  NaN values in the history are outside the model, which agrees with the code wherever
  the floating-point operations of the last rule are exact.
\<close>

datatype npfloat = Finite rat | PosInf | NegInf | NaN

definition np_div :: "rat \<Rightarrow> rat \<Rightarrow> npfloat" where
  "np_div x y =
     (if y \<noteq> 0 then Finite (x / y)
      else if 0 < x then PosInf else if x < 0 then NegInf else NaN)"

fun np_gt :: "npfloat \<Rightarrow> rat \<Rightarrow> bool" where
  "np_gt (Finite x) c = (c < x)"
| "np_gt PosInf c = True"
| "np_gt NegInf c = False"
| "np_gt NaN c = False"

definition stock_qualifies :: "info \<Rightarrow> history \<Rightarrow> exn + bool" where
  "stock_qualifies info hist =
     (let industry = py_get info ''industry'' (PStr '''') in
      bind_exn
        (if truthy industry then
           bind_exn (py_lower industry) (\<lambda>lower_industry.
             Inr (py_in ''financial'' lower_industry \<or> py_in ''real estate'' lower_industry
                  \<or> py_in ''tobacco'' lower_industry))
         else Inr False) (\<lambda>excluded.
      if excluded then Inr False else
      let exchange = py_get info ''exchange'' (PStr '''') in
      bind_exn
        (if truthy exchange then
           bind_exn (py_lower exchange) (\<lambda>lower_exchange. Inr (py_in ''otc'' lower_exchange))
         else Inr False) (\<lambda>otc.
      if otc then Inr False else
      bind_exn (py_cmp ''<'' (\<lambda>x y. x < y) (py_get info ''marketCap'' (PInt 0))
                  (PFloat 50000000)) (\<lambda>small.
      if small then Inr False else
      bind_exn (py_cmp ''>'' (\<lambda>x y. x > y) (py_get info ''debtToEquity'' (PInt 100))
                  (PFloat (2 / 5))) (\<lambda>indebted.
      if indebted then Inr False else
      bind_exn (py_cmp ''>='' (\<lambda>x y. x \<ge> y) (py_get info ''priceToBook'' (PInt 100))
                  (PFloat (6 / 5))) (\<lambda>dear.
      if dear then Inr False else
      bind_exn (py_cmp ''<='' (\<lambda>x y. x \<le> y) (py_get info ''profitMargins'' (PInt 0))
                  (PInt 0)) (\<lambda>unprofitable.
      if unprofitable then Inr False else
      if hist = [] then Inr False else
      let three_year_low = min_list hist;
          current_price = py_get info ''regularMarketPrice'' PNone in
      if current_price = PNone then Inr False else
      bind_exn (py_cmp ''<'' (\<lambda>x y. x < y) current_price (PInt 5)) (\<lambda>penny.
      if penny then Inr False else
      (case num_of current_price of
         None \<Rightarrow> Inl (Exn ''TypeError''
                   (''unsupported operand type(s) for -: '' @
                    quoted (type_name current_price) @ '' and '' @ quoted ''float''))
       | Some p \<Rightarrow>
           if np_gt (np_div (p - three_year_low) three_year_low) (7 / 20)
           then Inr False else Inr True)))))))))"

section \<open>The fetcher\<close>

text \<open>
  The market-data provider is outside the program. One attempt of the loop
  (\<^verbatim>\<open>yf.Ticker(ticker)\<close>, \<^verbatim>\<open>.info\<close>, \<^verbatim>\<open>.history(period="3y")\<close>) is one provider
  call: it raises or it gives the snapshot and the history. What the provider answers
  may depend on everything that happened before, so it reads the trace of the run:
  the provider calls and the \<^verbatim>\<open>time.sleep\<close> waits so far, oldest first.
\<close>

datatype event = Call string | Sleep int

type_synonym trace = "event list"

type_synonym response = "exn + (info \<times> history)"

type_synonym provider = "trace \<Rightarrow> string \<Rightarrow> response"

definition retryable :: "string \<Rightarrow> bool" where
  "retryable error_message =
     (py_in ''Too Many Requests'' error_message \<or> py_in ''401 Client Error'' error_message)"

definition digit_char :: "nat \<Rightarrow> char" where
  "digit_char d = ''0123456789'' ! d"

fun str_nat :: "nat \<Rightarrow> string" where
  "str_nat n = (if n < 10 then [digit_char n] else str_nat (n div 10) @ [digit_char (n mod 10)])"

text \<open>\<^verbatim>\<open>str(i)\<close> of a Python int.\<close>

definition str_int :: "int \<Rightarrow> string" where
  "str_int i = (if i < 0 then ''-'' @ str_nat (nat (- i)) else str_nat (nat i))"

function fetch_loop ::
  "provider \<Rightarrow> string \<Rightarrow> int \<Rightarrow> int \<Rightarrow> int \<Rightarrow> trace \<Rightarrow> response \<times> trace" where
  "fetch_loop P ticker max_retries retries delay w =
     (if retries < max_retries then
        (case P w ticker of
           Inr r \<Rightarrow> (Inr r, w @ [Call ticker])
         | Inl e \<Rightarrow>
             if retryable (str_exc e)
             then fetch_loop P ticker max_retries (retries + 1) (delay * 2)
                    (w @ [Call ticker, Sleep delay])
             else (Inl e, w @ [Call ticker]))
      else (Inl (Exn ''Exception''
                  (''Failed to fetch data for '' @ ticker @ '' after '' @
                   str_int max_retries @ '' retries.'')), w))"
  by pat_completeness auto
termination
  by (relation "measure (\<lambda>(P, ticker, max_retries, retries, delay, w). nat (max_retries - retries))")
     auto

definition fetch_stock_data :: "provider \<Rightarrow> string \<Rightarrow> int \<Rightarrow> trace \<Rightarrow> response \<times> trace" where
  "fetch_stock_data P ticker max_retries w = fetch_loop P ticker max_retries 0 1 w"

section \<open>The screening pipeline\<close>



section \<open>The result store\<close>

text \<open>
  \<^verbatim>\<open>datetime.now()\<close> is read from outside: its calendar fields, and the
  \<^verbatim>\<open>strftime("%Y%m%d_%H%M%S")\<close> of them (each field in decimal, padded with zeros
  to its width). Below the year 1000 the padding of \<^verbatim>\<open>%Y\<close> depends on the platform;
  the statements take years of four digits.
\<close>

record datetime =
  year :: nat
  month :: nat
  day :: nat
  hour :: nat
  minute :: nat
  second :: nat

definition zfill :: "nat \<Rightarrow> string \<Rightarrow> string" where
  "zfill width s = replicate (width - length s) (CHR ''0'') @ s"

definition strftime :: "datetime \<Rightarrow> string" where
  "strftime dt =
     zfill 4 (str_nat (year dt)) @ zfill 2 (str_nat (month dt)) @ zfill 2 (str_nat (day dt)) @
     ''_'' @
     zfill 2 (str_nat (hour dt)) @ zfill 2 (str_nat (minute dt)) @ zfill 2 (str_nat (second dt))"

definition newline :: string where
  "newline = [CHR 0x0A]"

text \<open>
  The audit file is its text, or \<open>None\<close> while it does not exist; opening it with mode
  \<^verbatim>\<open>"a"\<close> creates it empty if needed and every \<^verbatim>\<open>write\<close> goes to its end.
\<close>

definition save_all_results :: "string list \<Rightarrow> datetime \<Rightarrow> string option \<Rightarrow> string" where
  "save_all_results all_results now file =
     (let timestamp = strftime now;
          f = (case file of None \<Rightarrow> [] | Some text \<Rightarrow> text);
          f = f @ ''Run at '' @ timestamp @ newline;
          f = foldl (\<lambda>f line. f @ line @ newline) f all_results
      in f @ newline)"

text \<open>
  The results folder is the list of its regular files, in the order \<^verbatim>\<open>os.listdir\<close>
  gives them, or \<open>None\<close> while it does not exist. Each file has its name, its
  modification time and its text.
\<close>

record file_entry =
  fname :: string
  mtime :: rat
  content :: string

type_synonym folder = "file_entry list"

text \<open>Python's \<^verbatim>\<open>xs[:stop]\<close>.\<close>

definition slice_upto :: "'a list \<Rightarrow> int \<Rightarrow> 'a list" where
  "slice_upto xs stop =
     (let n = int (length xs);
          k = (if stop < 0 then max (n + stop) 0 else min stop n)
      in take (nat k) xs)"

definition os_remove :: "folder \<Rightarrow> string \<Rightarrow> folder" where
  "os_remove d name = filter (\<lambda>e. fname e \<noteq> name) d"

definition is_snapshot :: "file_entry \<Rightarrow> bool" where
  "is_snapshot e = (starts_with ''results_'' (fname e) \<and> ends_with ''.txt'' (fname e))"

definition prune_old_results :: "folder \<Rightarrow> int \<Rightarrow> folder" where
  "prune_old_results d max_files =
     (let files = filter is_snapshot d in
      if int (length files) > max_files then
        foldl (\<lambda>d file. os_remove d (fname file)) d
          (slice_upto (sort_key mtime files) (- max_files))
      else d)"

text \<open>
  \<^verbatim>\<open>open(filename, "w")\<close> and the writes: an existing file of that name is
  replaced where it stands, a new one is added to the listing. The file gets the
  modification time \<open>t\<close> of the write.
\<close>

definition write_file :: "folder \<Rightarrow> string \<Rightarrow> string \<Rightarrow> rat \<Rightarrow> folder" where
  "write_file d name text t =
     (if name \<in> fname ` set d
      then map (\<lambda>e. if fname e = name then e\<lparr>mtime := t, content := text\<rparr> else e) d
      else d @ [\<lparr>fname = name, mtime = t, content = text\<rparr>])"

definition save_recommended_results ::
  "string list \<Rightarrow> datetime \<Rightarrow> rat \<Rightarrow> folder option \<Rightarrow> folder" where
  "save_recommended_results qualifying now t dir =
     (let d = (case dir of None \<Rightarrow> [] | Some d \<Rightarrow> d);
          timestamp = strftime now;
          filename = ''results_'' @ timestamp @ ''.txt'';
          text = foldl (\<lambda>f stock. f @ stock @ newline)
                   (''Stocks meeting Walter Schloss criteria:'' @ newline) qualifying;
          d = write_file d filename text t
      in prune_old_results d 7)"

section \<open>Sample inputs\<close>

text \<open>A snapshot and a history that pass every rule.\<close>

definition sound_info :: info where
  "sound_info =
     [''industry'' \<mapsto> PStr ''Specialty Chemicals'',
      ''exchange'' \<mapsto> PStr ''NYQ'',
      ''marketCap'' \<mapsto> PInt 900000000,
      ''debtToEquity'' \<mapsto> PFloat (1 / 5),
      ''priceToBook'' \<mapsto> PFloat (9 / 10),
      ''profitMargins'' \<mapsto> PFloat (1 / 10),
      ''regularMarketPrice'' \<mapsto> PFloat 12]"

definition sound_hist :: history where
  "sound_hist = [11, 10, 12]"

section \<open>Notions used in the statements\<close>

text \<open>
  A text field passes its rule: it is falsy (absent, empty, \<^verbatim>\<open>None\<close>, zero), or a
  string whose lower-case form contains none of the excluded words.
\<close>

definition text_ok :: "info \<Rightarrow> string \<Rightarrow> string list \<Rightarrow> bool" where
  "text_ok info k excluded =
     (case py_get info k (PStr '''') of
        PStr s \<Rightarrow> list_all (\<lambda>w. \<not> py_in w (lower s)) excluded
      | v \<Rightarrow> \<not> truthy v)"

text \<open>The defaults the specification documents for the optional fields.\<close>

definition documented_default :: "string \<Rightarrow> pyval" where
  "documented_default k =
     (if k = ''marketCap'' then PInt 0
      else if k = ''debtToEquity'' then PInt 100
      else if k = ''priceToBook'' then PInt 100
      else if k = ''profitMargins'' then PInt 0
      else PNone)"

definition optional_fields :: "string list" where
  "optional_fields =
     [''marketCap'', ''debtToEquity'', ''priceToBook'', ''profitMargins'',
      ''regularMarketPrice'']"

text \<open>
  The fields of a snapshot have the types the rules expect: the text fields are strings
  or falsy, the numeric fields are absent or numbers, the price may also be \<^verbatim>\<open>None\<close>.
\<close>

definition text_typed :: "pyval \<Rightarrow> bool" where
  "text_typed v = (case v of PStr s \<Rightarrow> True | _ \<Rightarrow> \<not> truthy v)"

definition well_typed :: "info \<Rightarrow> bool" where
  "well_typed info =
     (text_typed (py_get info ''industry'' (PStr '''')) \<and>
      text_typed (py_get info ''exchange'' (PStr '''')) \<and>
      list_all (\<lambda>k. num_of (py_get info k (PInt 0)) \<noteq> None)
        [''marketCap'', ''debtToEquity'', ''priceToBook'', ''profitMargins''] \<and>
      (let p = py_get info ''regularMarketPrice'' PNone in p = PNone \<or> num_of p \<noteq> None))"





text \<open>Sample providers: one that is rate-limited twice and then answers, one that always
  is, and one that fails for good.\<close>

fun is_call :: "event \<Rightarrow> bool" where
  "is_call (Call t) = True"
| "is_call (Sleep d) = False"

definition rate_limited :: exn where
  "rate_limited = Exn ''YFRateLimitError'' ''Too Many Requests. Rate limited. Try after a while.''"

definition not_found :: exn where
  "not_found = Exn ''HTTPError'' ''404 Client Error: Not Found''"

definition flaky_provider :: provider where
  "flaky_provider w t =
     (if length (filter is_call w) < 2 then Inl rate_limited else Inr (sound_info, sound_hist))"



text \<open>Sample markets: one where the symbol \<open>BAD\<close> cannot be fetched, one where every
  symbol is sound.\<close>

definition healthy :: "string \<Rightarrow> response" where
  "healthy t = Inr (sound_info, sound_hist)"

definition market :: "string \<Rightarrow> response" where
  "market t = (if t = ''BAD'' then Inl not_found else healthy t)"

text \<open>
  The block one run adds to the audit file: the header line with the time stamp, one
  line per verdict, and an empty line.
\<close>

definition run_block :: "string list \<Rightarrow> datetime \<Rightarrow> string" where
  "run_block all_results now =
     ''Run at '' @ strftime now @ newline @
     concat (map (\<lambda>line. line @ newline) all_results) @ newline"

text \<open>
  A calendar time with a year of four digits, and the shape \<^verbatim>\<open>YYYYMMDD_HHMMSS\<close>:
  fifteen characters, decimal digits but for the underscore in the middle.
\<close>

definition calendar :: "datetime \<Rightarrow> bool" where
  "calendar dt =
     (1000 \<le> year dt \<and> year dt \<le> 9999 \<and> 1 \<le> month dt \<and> month dt \<le> 12 \<and>
      1 \<le> day dt \<and> day dt \<le> 31 \<and> hour dt < 24 \<and> minute dt < 60 \<and> second dt < 60)"

definition is_digit :: "char \<Rightarrow> bool" where
  "is_digit c = (c \<in> set ''0123456789'')"

definition timestamp_shaped :: "string \<Rightarrow> bool" where
  "timestamp_shaped s =
     (length s = 15 \<and> list_all is_digit (take 8 s) \<and> s ! 8 = CHR ''_'' \<and>
      list_all is_digit (drop 9 s))"

definition some_evening :: datetime where
  "some_evening =
     \<lparr>year = 2024, month = 3, day = 9, hour = 18, minute = 5, second = 0\<rparr>"

definition next_morning :: datetime where
  "next_morning =
     \<lparr>year = 2024, month = 3, day = 10, hour = 7, minute = 30, second = 59\<rparr>"

text \<open>
  A results folder with ten snapshots, listed in no particular order, and a file of
  another kind.
\<close>

definition stored :: "string \<Rightarrow> rat \<Rightarrow> file_entry" where
  "stored name t = \<lparr>fname = name, mtime = t, content = []\<rparr>"

definition sample_folder :: folder where
  "sample_folder =
     [stored ''results_20240223_180000.txt'' 23,
      stored ''results_20240220_180000.txt'' 20,
      stored ''results_20240228_180000.txt'' 28,
      stored ''notes.txt'' 21,
      stored ''results_20240221_180000.txt'' 21,
      stored ''results_20240226_180000.txt'' 26,
      stored ''results_20240229_180000.txt'' 29,
      stored ''results_20240222_180000.txt'' 22,
      stored ''results_20240225_180000.txt'' 25,
      stored ''results_20240224_180000.txt'' 24,
      stored ''results_20240227_180000.txt'' 27]"

section \<open>Properties of the qualifier\<close>

lemma gate_True:
  "bind_exn m (\<lambda>b. if b then Inr False else k) = Inr True \<longleftrightarrow> m = Inr False \<and> k = Inr True"
  by (cases m) (auto simp: bind_exn_def)

lemma gate_total:
  "\<exists>b. m = Inr b \<Longrightarrow> \<exists>b. k = Inr b \<Longrightarrow> \<exists>b. bind_exn m (\<lambda>b. if b then Inr False else k) = Inr b"
  by (auto simp: bind_exn_def)

lemma py_cmp_False_iff:
  "py_cmp opname f a b = Inr False \<longleftrightarrow> (\<exists>x y. num_of a = Some x \<and> num_of b = Some y \<and> \<not> f x y)"
  by (auto simp: py_cmp_def split: option.splits)

lemma py_cmp_total:
  "num_of a \<noteq> None \<Longrightarrow> num_of b \<noteq> None \<Longrightarrow> \<exists>r. py_cmp opname f a b = Inr r"
  by (auto simp: py_cmp_def split: option.splits)

lemma industry_gate:
  "(if truthy (py_get info ''industry'' (PStr '''')) then
      bind_exn (py_lower (py_get info ''industry'' (PStr '''')))
        (\<lambda>l. Inr (py_in ''financial'' l \<or> py_in ''real estate'' l \<or> py_in ''tobacco'' l))
    else Inr False) = Inr False \<longleftrightarrow>
   text_ok info ''industry'' [''financial'', ''real estate'', ''tobacco'']"
  by (cases "py_get info ''industry'' (PStr '''')")
     (auto simp: text_ok_def bind_exn_def py_lower_def lower_def)

lemma exchange_gate:
  "(if truthy (py_get info ''exchange'' (PStr '''')) then
      bind_exn (py_lower (py_get info ''exchange'' (PStr ''''))) (\<lambda>l. Inr (py_in ''otc'' l))
    else Inr False) = Inr False
   \<longleftrightarrow> text_ok info ''exchange'' [''otc'']"
  by (cases "py_get info ''exchange'' (PStr '''')")
     (auto simp: text_ok_def bind_exn_def py_lower_def lower_def)

lemma py_cmp_float:
  "py_cmp opname f a (PFloat y) = Inr False \<longleftrightarrow> (\<exists>x. num_of a = Some x \<and> \<not> f x y)"
  by (simp add: py_cmp_False_iff)

lemma py_cmp_int:
  "py_cmp opname f a (PInt 0) = Inr False \<longleftrightarrow> (\<exists>x. num_of a = Some x \<and> \<not> f x 0)"
  by (simp add: py_cmp_False_iff)

lemma num_of_default:
  "num_of (py_get info k (PInt a)) \<noteq> None \<Longrightarrow> num_of (py_get info k (PInt b)) \<noteq> None"
  by (simp add: py_get_def split: option.splits)

lemma text_gate_total:
  "text_typed v \<Longrightarrow>
   \<exists>r. (if truthy v then bind_exn (py_lower v) (\<lambda>l. Inr (P l)) else Inr False) = Inr r"
  by (cases v) (auto simp: bind_exn_def py_lower_def text_typed_def)

lemma price_gate:
  "(if hist = [] then Inr False else
     if cp = PNone then Inr False else
     bind_exn (py_cmp opname (\<lambda>x y. x < y) cp (PInt 5)) (\<lambda>penny.
      if penny then Inr False else
      (case num_of cp of None \<Rightarrow> Inl e
       | Some p \<Rightarrow> if np_gt (np_div (p - low) low) c then Inr False else Inr True))) = Inr True
   \<longleftrightarrow> hist \<noteq> [] \<and> (\<exists>p. num_of cp = Some p \<and> \<not> p < 5 \<and> \<not> np_gt (np_div (p - low) low) c)"
  by (cases cp) (auto simp: gate_True py_cmp_False_iff)

lemma price_gate_total:
  "cp = PNone \<or> num_of cp \<noteq> None \<Longrightarrow>
   \<exists>r. (if hist = [] then Inr False else
     if cp = PNone then Inr False else
     bind_exn (py_cmp opname (\<lambda>x y. x < y) cp (PInt 5)) (\<lambda>penny.
      if penny then Inr False else
      (case num_of cp of None \<Rightarrow> Inl e
       | Some p \<Rightarrow> if np_gt (np_div (p - low) low) c then Inr False else Inr True))) = Inr r"
  by (cases cp) (auto simp: bind_exn_def py_cmp_def)

lemma stock_qualifies_True_iff:
  "stock_qualifies info hist = Inr True \<longleftrightarrow>
     text_ok info ''industry'' [''financial'', ''real estate'', ''tobacco''] \<and>
     text_ok info ''exchange'' [''otc''] \<and>
     (\<exists>x. num_of (py_get info ''marketCap'' (PInt 0)) = Some x \<and> \<not> x < 50000000) \<and>
     (\<exists>x. num_of (py_get info ''debtToEquity'' (PInt 100)) = Some x \<and> \<not> x > 2 / 5) \<and>
     (\<exists>x. num_of (py_get info ''priceToBook'' (PInt 100)) = Some x \<and> \<not> x \<ge> 6 / 5) \<and>
     (\<exists>x. num_of (py_get info ''profitMargins'' (PInt 0)) = Some x \<and> \<not> x \<le> 0) \<and>
     hist \<noteq> [] \<and>
     (\<exists>p. num_of (py_get info ''regularMarketPrice'' PNone) = Some p \<and> \<not> p < 5 \<and>
          \<not> np_gt (np_div (p - min_list hist) (min_list hist)) (7 / 20))"
  unfolding stock_qualifies_def Let_def
  by (simp only: gate_True price_gate industry_gate exchange_gate py_cmp_float py_cmp_int)

lemma stock_qualifies_total:
  assumes "well_typed info"
  shows "\<exists>b. stock_qualifies info hist = Inr b"
  using assms unfolding stock_qualifies_def Let_def well_typed_def
  by (intro gate_total text_gate_total price_gate_total py_cmp_total)
     (simp_all add: num_of_default [of info _ 0])

lemma stock_qualifies_cong:
  assumes "py_get a ''industry'' (PStr '''') = py_get b ''industry'' (PStr '''')"
    and "py_get a ''exchange'' (PStr '''') = py_get b ''exchange'' (PStr '''')"
    and "py_get a ''marketCap'' (PInt 0) = py_get b ''marketCap'' (PInt 0)"
    and "py_get a ''debtToEquity'' (PInt 100) = py_get b ''debtToEquity'' (PInt 100)"
    and "py_get a ''priceToBook'' (PInt 100) = py_get b ''priceToBook'' (PInt 100)"
    and "py_get a ''profitMargins'' (PInt 0) = py_get b ''profitMargins'' (PInt 0)"
    and "py_get a ''regularMarketPrice'' PNone = py_get b ''regularMarketPrice'' PNone"
  shows "stock_qualifies a hist = stock_qualifies b hist"
  unfolding stock_qualifies_def by (simp only: assms)

lemma stock_qualifies_default:
  assumes "k \<in> set optional_fields"
  shows "stock_qualifies (info(k := None)) hist =
         stock_qualifies (info(k \<mapsto> documented_default k)) hist"
  by (rule stock_qualifies_cong)
     (use assms in \<open>auto simp: optional_fields_def py_get_def documented_default_def\<close>)

lemmas qualifiesD = stock_qualifies_True_iff [THEN iffD1]
lemmas qualifies_industry = qualifiesD [THEN conjunct1]
lemmas qualifies_rest1 = qualifiesD [THEN conjunct2]
lemmas qualifies_exchange = qualifies_rest1 [THEN conjunct1]
lemmas qualifies_rest2 = qualifies_rest1 [THEN conjunct2]
lemmas qualifies_marketCap = qualifies_rest2 [THEN conjunct1]
lemmas qualifies_rest3 = qualifies_rest2 [THEN conjunct2]
lemmas qualifies_debtToEquity = qualifies_rest3 [THEN conjunct1]
lemmas qualifies_rest4 = qualifies_rest3 [THEN conjunct2]
lemmas qualifies_priceToBook = qualifies_rest4 [THEN conjunct1]
lemmas qualifies_rest5 = qualifies_rest4 [THEN conjunct2]
lemmas qualifies_profitMargins = qualifies_rest5 [THEN conjunct1]
lemmas qualifies_rest6 = qualifies_rest5 [THEN conjunct2]
lemmas qualifies_hist = qualifies_rest6 [THEN conjunct1]
lemmas qualifies_price = qualifies_rest6 [THEN conjunct2]

lemma missing_not_True:
  assumes "k \<in> set optional_fields"
  shows "stock_qualifies (info(k := None)) hist \<noteq> Inr True"
proof
  assume q: "stock_qualifies (info(k := None)) hist = Inr True"
  from assms have "k = ''marketCap'' \<or> k = ''debtToEquity'' \<or> k = ''priceToBook''
    \<or> k = ''profitMargins'' \<or> k = ''regularMarketPrice''"
    by (simp add: optional_fields_def)
  then show False
  proof (elim disjE)
    assume "k = ''marketCap''"
    then have "num_of (py_get (info(k := None)) ''marketCap'' (PInt 0)) = Some 0"
      by (simp add: py_get_def)
    with qualifies_marketCap [OF q] show False by simp
  next
    assume "k = ''debtToEquity''"
    then have "num_of (py_get (info(k := None)) ''debtToEquity'' (PInt 100)) = Some 100"
      by (simp add: py_get_def)
    with qualifies_debtToEquity [OF q] show False by simp
  next
    assume "k = ''priceToBook''"
    then have "num_of (py_get (info(k := None)) ''priceToBook'' (PInt 100)) = Some 100"
      by (simp add: py_get_def)
    with qualifies_priceToBook [OF q] show False by simp
  next
    assume "k = ''profitMargins''"
    then have "num_of (py_get (info(k := None)) ''profitMargins'' (PInt 0)) = Some 0"
      by (simp add: py_get_def)
    with qualifies_profitMargins [OF q] show False by simp
  next
    assume "k = ''regularMarketPrice''"
    then have "num_of (py_get (info(k := None)) ''regularMarketPrice'' PNone) = None"
      by (simp add: py_get_def)
    with qualifies_price [OF q] show False by simp
  qed
qed

lemma text_ok_typed: "text_ok info k ws \<Longrightarrow> text_typed (py_get info k (PStr ''''))"
  by (cases "py_get info k (PStr '''')") (auto simp: text_ok_def text_typed_def)

lemma well_typed_if_True:
  assumes "stock_qualifies info hist = Inr True"
  shows "well_typed info"
  using assms unfolding stock_qualifies_True_iff well_typed_def Let_def
  by (auto intro: text_ok_typed num_of_default [of info _ 100, THEN notE])


lemma well_typed_remove:
  assumes "well_typed info"
  shows "well_typed (info(k := None))"
proof -
  have t: "text_typed (py_get (info(k := None)) f (PStr ''''))"
    if "text_typed (py_get info f (PStr ''''))" for f
    using that by (cases "f = k") (simp_all add: py_get_def text_typed_def)
  have n: "num_of (py_get (info(k := None)) f (PInt 0)) \<noteq> None"
    if "num_of (py_get info f (PInt 0)) \<noteq> None" for f
    using that by (cases "f = k") (simp_all add: py_get_def)
  have p: "py_get (info(k := None)) f PNone = PNone \<or> num_of (py_get (info(k := None)) f PNone) \<noteq> None"
    if "py_get info f PNone = PNone \<or> num_of (py_get info f PNone) \<noteq> None" for f
    using that by (cases "f = k") (simp_all add: py_get_def)
  from assms show ?thesis
    unfolding well_typed_def Let_def list.pred_inject
    by (intro conjI t n p TrueI) simp_all
qed

lemmas sq_simps = stock_qualifies_def sound_info_def sound_hist_def py_get_def bind_exn_def
  py_lower_def lower_def lower_char_def py_cmp_def np_div_def


text \<open>
  Claim C9. Omitting one of the optional fields (market capitalization, debt-to-equity,
  price-to-book, net profit margin, current price) from a snapshot that passes every rule
  makes \<open>stock_qualifies\<close> return false, and the outcome is the one the documented
  default of that field gives (0, 100, 100, 0, and \<^verbatim>\<open>None\<close> for the price).
\<close>

theorem missing_field_disqualifies:
  assumes "stock_qualifies info hist = Inr True" and "k \<in> set optional_fields"
  shows "stock_qualifies (info(k := None)) hist = Inr False \<and>
         stock_qualifies (info(k := None)) hist =
           stock_qualifies (info(k \<mapsto> documented_default k)) hist"
proof -
  have "well_typed (info(k := None))"
    using assms(1) by (intro well_typed_remove well_typed_if_True)
  then obtain b where b: "stock_qualifies (info(k := None)) hist = Inr b"
    using stock_qualifies_total by blast
  moreover have "stock_qualifies (info(k := None)) hist \<noteq> Inr True"
    using assms(2) by (rule missing_not_True)
  ultimately have "stock_qualifies (info(k := None)) hist = Inr False"
    by (cases b) simp_all
  then show ?thesis
    using stock_qualifies_default [OF assms(2)] by simp
qed

text \<open>Claim C9 at the sound snapshot with the price-to-book ratio left out.\<close>

theorem missing_field_disqualifies_witness:
  "stock_qualifies sound_info sound_hist = Inr True \<and> ''priceToBook'' \<in> set optional_fields \<and>
   stock_qualifies (sound_info(''priceToBook'' := None)) sound_hist = Inr False \<and>
   stock_qualifies (sound_info(''priceToBook'' := None)) sound_hist =
     stock_qualifies (sound_info(''priceToBook'' \<mapsto> documented_default ''priceToBook''))
       sound_hist"
proof -
  have k: "''priceToBook'' \<in> set optional_fields" by (simp add: optional_fields_def)
  have q: "stock_qualifies sound_info sound_hist = Inr True" by (simp add: sq_simps)
  from missing_field_disqualifies [OF q k] q k show ?thesis by blast
qed

text \<open>
  Claim C2 says a zero or negative three-year low disqualifies, as the docstring's
  "Price must be within 35% above the 3-year low" does for a negative low. The code
  divides by the low with no guard: with a low of -1 and a price of 12 the ratio is -13,
  which is not above 0.35, so a snapshot that is sound otherwise qualifies.
\<close>

theorem negative_low_qualifies:
  "min_list [11, - 1, 12 :: rat] = - 1 \<and>
   stock_qualifies sound_info [11, - 1, 12] = Inr True"
  by (simp add: sq_simps)

text \<open>
  Claim C3 says a debt-to-equity ratio of exactly 0.4 disqualifies, as the docstring's
  "Requires Debt to Equity < 0.4" does. The code tests \<^verbatim>\<open>> 0.4\<close>, so a snapshot at
  exactly 0.4 that is sound otherwise qualifies.
\<close>

theorem debt_to_equity_boundary_qualifies:
  "stock_qualifies (sound_info(''debtToEquity'' \<mapsto> PFloat (2 / 5))) sound_hist = Inr True"
  by (simp add: sq_simps)

text \<open>
  Claim C4 says a market capitalization of exactly 50,000,000 disqualifies, as the
  docstring's "Requires Market Cap > 50M" does. The code tests \<^verbatim>\<open>< 50e6\<close>, so a
  snapshot at exactly 50,000,000 that is sound otherwise qualifies.
\<close>

theorem market_cap_boundary_qualifies:
  "stock_qualifies (sound_info(''marketCap'' \<mapsto> PInt 50000000)) sound_hist = Inr True"
  by (simp add: sq_simps)

section \<open>Properties of the fetcher\<close>

declare fetch_loop.simps [simp del] str_nat.simps [simp del]

lemma fetch_loop_success:
  "retries < max_retries \<Longrightarrow> P w t = Inr r \<Longrightarrow>
   fetch_loop P t max_retries retries delay w = (Inr r, w @ [Call t])"
  by (subst fetch_loop.simps) simp

lemma fetch_loop_retry:
  "retries < max_retries \<Longrightarrow> P w t = Inl e \<Longrightarrow> retryable (str_exc e) \<Longrightarrow>
   fetch_loop P t max_retries retries delay w =
   fetch_loop P t max_retries (retries + 1) (delay * 2) (w @ [Call t, Sleep delay])"
  by (subst fetch_loop.simps) simp



text \<open>
  Claim C5. When the provider answers the first two attempts with a rate-limit error and
  the third with data, \<open>fetch_stock_data\<close> with three attempts makes exactly three
  provider calls, waits 1 after the first failure and 2 after the second, and returns
  the data of the third call.
\<close>

theorem fetch_retries_with_backoff:
  assumes "P w t = Inl e1" and "retryable (str_exc e1)"
    and "P (w @ [Call t, Sleep 1]) t = Inl e2" and "retryable (str_exc e2)"
    and "P (w @ [Call t, Sleep 1, Call t, Sleep 2]) t = Inr r"
  shows "fetch_stock_data P t 3 w = (Inr r, w @ [Call t, Sleep 1, Call t, Sleep 2, Call t])"
proof -
  have "fetch_stock_data P t 3 w = fetch_loop P t 3 1 2 (w @ [Call t, Sleep 1])"
    unfolding fetch_stock_data_def using assms(1,2) by (simp add: fetch_loop_retry)
  also have "\<dots> = fetch_loop P t 3 2 4 (w @ [Call t, Sleep 1, Call t, Sleep 2])"
    using assms(3,4) by (simp add: fetch_loop_retry)
  also have "\<dots> = (Inr r, w @ [Call t, Sleep 1, Call t, Sleep 2, Call t])"
    using assms(5) by (simp add: fetch_loop_success)
  finally show ?thesis .
qed

lemma retryable_rate_limited: "retryable (str_exc rate_limited)"
  by (simp add: rate_limited_def retryable_def)


text \<open>
  Claim C5 at the provider that is rate-limited on its first two calls.
\<close>

theorem fetch_retries_with_backoff_witness:
  "flaky_provider [] ''ACME'' = Inl rate_limited \<and> retryable (str_exc rate_limited) \<and>
   flaky_provider [Call ''ACME'', Sleep 1] ''ACME'' = Inl rate_limited \<and>
   flaky_provider [Call ''ACME'', Sleep 1, Call ''ACME'', Sleep 2] ''ACME'' =
     Inr (sound_info, sound_hist) \<and>
   fetch_stock_data flaky_provider ''ACME'' 3 [] =
     (Inr (sound_info, sound_hist),
      [Call ''ACME'', Sleep 1, Call ''ACME'', Sleep 2, Call ''ACME''])"
proof -
  have 1: "flaky_provider [] ''ACME'' = Inl rate_limited"
    by (simp add: flaky_provider_def)
  have 2: "flaky_provider ([] @ [Call ''ACME'', Sleep 1]) ''ACME'' = Inl rate_limited"
    by (simp add: flaky_provider_def)
  have 3: "flaky_provider ([] @ [Call ''ACME'', Sleep 1, Call ''ACME'', Sleep 2]) ''ACME'' =
      Inr (sound_info, sound_hist)"
    by (simp add: flaky_provider_def)
  from fetch_retries_with_backoff
      [of flaky_provider "[]" "''ACME''" rate_limited rate_limited "(sound_info, sound_hist)",
       OF 1 retryable_rate_limited 2 retryable_rate_limited 3]
    1 2 3 retryable_rate_limited
  show ?thesis by simp
qed








section \<open>Properties of the pipeline\<close>














lemma market_other: "t \<noteq> ''BAD'' \<Longrightarrow> market t = healthy t"
  by (simp add: market_def)




section \<open>Properties of the audit file\<close>

lemma str_nat_1: "n < 10 \<Longrightarrow> str_nat n = [digit_char n]"
  by (simp add: str_nat.simps [of n])

lemma str_nat_2:
  "10 \<le> n \<Longrightarrow> n < 100 \<Longrightarrow> str_nat n = [digit_char (n div 10), digit_char (n mod 10)]"
  by (simp add: str_nat.simps [of n] str_nat_1)

lemma div_10_10: "(n::nat) div 10 div 10 = n div 100" "(n::nat) div 10 div 100 = n div 1000"
  by (simp_all add: div_mult2_eq [symmetric])

lemma str_nat_3:
  "100 \<le> n \<Longrightarrow> n < 1000 \<Longrightarrow>
   str_nat n = [digit_char (n div 100), digit_char (n div 10 mod 10), digit_char (n mod 10)]"
  by (simp add: str_nat.simps [of n] str_nat_2 div_10_10)

lemma str_nat_4:
  "1000 \<le> n \<Longrightarrow> n < 10000 \<Longrightarrow>
   str_nat n = [digit_char (n div 1000), digit_char (n div 100 mod 10),
                digit_char (n div 10 mod 10), digit_char (n mod 10)]"
  by (simp add: str_nat.simps [of n] str_nat_3 div_10_10)

lemma zfill_2:
  "n < 100 \<Longrightarrow> zfill 2 (str_nat n) = [digit_char (n div 10), digit_char (n mod 10)]"
proof (cases "n < 10")
  case True
  then show ?thesis by (simp add: zfill_def str_nat_1 digit_char_def)
next
  case False
  assume "n < 100"
  with False show ?thesis by (simp add: zfill_def str_nat_2)
qed

lemma zfill_4:
  "1000 \<le> n \<Longrightarrow> n < 10000 \<Longrightarrow>
   zfill 4 (str_nat n) = [digit_char (n div 1000), digit_char (n div 100 mod 10),
                          digit_char (n div 10 mod 10), digit_char (n mod 10)]"
  by (simp add: zfill_def str_nat_4)

lemma is_digit_digit_char: "k < 10 \<Longrightarrow> is_digit (digit_char k)"
  unfolding is_digit_def digit_char_def by (rule nth_mem) simp

lemma strftime_calendar:
  assumes "calendar dt"
  shows "strftime dt =
    [digit_char (year dt div 1000), digit_char (year dt div 100 mod 10),
     digit_char (year dt div 10 mod 10), digit_char (year dt mod 10),
     digit_char (month dt div 10), digit_char (month dt mod 10),
     digit_char (day dt div 10), digit_char (day dt mod 10), CHR ''_'',
     digit_char (hour dt div 10), digit_char (hour dt mod 10),
     digit_char (minute dt div 10), digit_char (minute dt mod 10),
     digit_char (second dt div 10), digit_char (second dt mod 10)]"
  using assms by (simp add: calendar_def strftime_def zfill_2 zfill_4)

lemma strftime_shaped:
  assumes "calendar dt"
  shows "timestamp_shaped (strftime dt)"
proof -
  from assms have "year dt div 1000 < 10" "month dt div 10 < 10" "day dt div 10 < 10"
    "hour dt div 10 < 10" "minute dt div 10 < 10" "second dt div 10 < 10"
    by (simp_all add: calendar_def div_less_iff_less_mult)
  then show ?thesis
    by (simp add: strftime_calendar [OF assms] timestamp_shaped_def is_digit_digit_char)
qed

lemma foldl_append_lines:
  "foldl (\<lambda>f line. f @ line @ nl) f ls = f @ concat (map (\<lambda>line. line @ nl) ls)"
  by (induction ls arbitrary: f) simp_all

lemma save_all_results_block:
  "save_all_results rs now old =
     (case old of None \<Rightarrow> [] | Some text \<Rightarrow> text) @ run_block rs now"
  by (simp add: save_all_results_def run_block_def foldl_append_lines Let_def)

text \<open>
  Claim C8. A run leaves the text the audit file had (nothing, for a file that did not
  exist) and puts after it the header line \<^verbatim>\<open>Run at\<close> with the time stamp, one
  line per entry of \<^verbatim>\<open>all_results\<close> in order, and an empty line. For a calendar
  time the stamp has the shape \<^verbatim>\<open>YYYYMMDD_HHMMSS\<close>. After a second run the file is
  the old text, the block of the first run and the block of the second.
\<close>

theorem save_all_results_appends:
  assumes "calendar now"
  shows "save_all_results rs now old =
           (case old of None \<Rightarrow> [] | Some text \<Rightarrow> text) @
           ''Run at '' @ strftime now @ newline @
           concat (map (\<lambda>line. line @ newline) rs) @ newline \<and>
         timestamp_shaped (strftime now) \<and>
         save_all_results rs' now' (Some (save_all_results rs now old)) =
           (case old of None \<Rightarrow> [] | Some text \<Rightarrow> text) @
           run_block rs now @ run_block rs' now'"
  using strftime_shaped [OF assms]
  by (simp add: save_all_results_block) (simp add: run_block_def)

lemma calendar_samples: "calendar some_evening" "calendar next_morning"
  by (simp_all add: calendar_def some_evening_def next_morning_def)

lemma strftime_some_evening: "strftime some_evening = ''20240309_180500''"
  unfolding strftime_calendar [OF calendar_samples(1)]
  by (simp add: some_evening_def digit_char_def)

lemma strftime_next_morning: "strftime next_morning = ''20240310_073059''"
  unfolding strftime_calendar [OF calendar_samples(2)]
  by (simp add: next_morning_def digit_char_def)

text \<open>
  Claim C8 at two runs, one in the evening and one the next morning, on a file that
  already holds some text.
\<close>

theorem save_all_results_appends_witness:
  "calendar some_evening \<and>
   save_all_results [''AAA - Qualifies''] some_evening (Some ''old text'') =
     ''old text'' @ ''Run at 20240309_180500'' @ newline @ ''AAA - Qualifies'' @ newline @ newline \<and>
   timestamp_shaped ''20240309_180500'' \<and>
   save_all_results [''BBB - Does not qualify''] next_morning
       (Some (save_all_results [''AAA - Qualifies''] some_evening (Some ''old text''))) =
     ''old text'' @
     ''Run at 20240309_180500'' @ newline @ ''AAA - Qualifies'' @ newline @ newline @
     ''Run at 20240310_073059'' @ newline @ ''BBB - Does not qualify'' @ newline @ newline"
proof -
  note r = save_all_results_appends [OF calendar_samples(1), where rs = "[''AAA - Qualifies'']"
      and old = "Some ''old text''" and rs' = "[''BBB - Does not qualify'']"
      and now' = next_morning]
  note a = r [THEN conjunct1] and b = r [THEN conjunct2, THEN conjunct1]
    and c = r [THEN conjunct2, THEN conjunct2]
  have A: "save_all_results [''AAA - Qualifies''] some_evening (Some ''old text'') =
     ''old text'' @ ''Run at 20240309_180500'' @ newline @ ''AAA - Qualifies'' @ newline @ newline"
    unfolding a by (simp add: strftime_some_evening)
  have B: "timestamp_shaped ''20240309_180500''"
    using b by (simp add: strftime_some_evening)
  have C: "save_all_results [''BBB - Does not qualify''] next_morning
       (Some (save_all_results [''AAA - Qualifies''] some_evening (Some ''old text''))) =
     ''old text'' @
     ''Run at 20240309_180500'' @ newline @ ''AAA - Qualifies'' @ newline @ newline @
     ''Run at 20240310_073059'' @ newline @ ''BBB - Does not qualify'' @ newline @ newline"
    unfolding c by (simp add: run_block_def strftime_some_evening strftime_next_morning)
  from calendar_samples(1) A B C show ?thesis by (intro conjI)
qed

section \<open>Properties of the results folder\<close>

lemma foldl_os_remove:
  "foldl (\<lambda>d file. os_remove d (fname file)) d fs =
     filter (\<lambda>e. fname e \<notin> fname ` set fs) d"
proof (induction fs arbitrary: d)
  case Nil
  show ?case by simp
next
  case (Cons a fs)
  have "foldl (\<lambda>d file. os_remove d (fname file)) d (a # fs) =
      foldl (\<lambda>d file. os_remove d (fname file)) (os_remove d (fname a)) fs"
    by simp
  also have "\<dots> = filter (\<lambda>e. fname e \<notin> fname ` set fs) (os_remove d (fname a))"
    by (rule Cons.IH)
  also have "\<dots> = filter (\<lambda>e. fname e \<notin> fname ` set (a # fs)) d"
    by (simp add: os_remove_def)
  finally show ?case .
qed

lemma slice_upto_7: "slice_upto xs (- 7) = take (length xs - 7) xs"
proof -
  have "nat (max (int (length xs) - 7) 0) = length xs - 7" by arith
  then show ?thesis by (simp add: slice_upto_def Let_def)
qed

lemma prune_unfold:
  "prune_old_results d 7 =
     (if 7 < length (filter is_snapshot d) then
        filter (\<lambda>e. fname e \<notin> fname ` set (take (length (filter is_snapshot d) - 7)
                 (sort_key mtime (filter is_snapshot d)))) d
      else d)"
  by (simp add: prune_old_results_def Let_def foldl_os_remove slice_upto_7)

lemma prune_noop: "length (filter is_snapshot d) \<le> 7 \<Longrightarrow> prune_old_results d 7 = d"
  by (simp add: prune_unfold)

lemma is_snapshot_fname: "fname a = fname b \<Longrightarrow> is_snapshot a = is_snapshot b"
  by (simp add: is_snapshot_def)

lemma filter_taken_le:
  "length (filter (\<lambda>e. g e \<notin> g ` set (take k S)) S) \<le> length S - k"
proof -
  let ?P = "\<lambda>e. g e \<notin> g ` set (take k S)"
  have "filter ?P S = filter ?P (take k S @ drop k S)" by simp
  also have "\<dots> = filter ?P (take k S) @ filter ?P (drop k S)" by (rule filter_append)
  also have "filter ?P (take k S) = []" by (simp add: filter_empty_conv)
  finally have "length (filter ?P S) = length (filter ?P (drop k S))" by simp
  also have "\<dots> \<le> length (drop k S)" by (rule length_filter_le)
  finally show ?thesis by simp
qed

lemma filter_taken_eq:
  assumes "distinct (map g S)"
  shows "filter (\<lambda>e. g e \<notin> g ` set (take k S)) S = drop k S"
proof -
  let ?P = "\<lambda>e. g e \<notin> g ` set (take k S)"
  from assms have "distinct (map g (take k S @ drop k S))" by simp
  then have disj: "g ` set (take k S) \<inter> g ` set (drop k S) = {}"
    unfolding map_append distinct_append set_map by (elim conjE)
  have "filter ?P S = filter ?P (take k S @ drop k S)" by simp
  also have "\<dots> = filter ?P (take k S) @ filter ?P (drop k S)" by (rule filter_append)
  also have "filter ?P (take k S) = []" by (simp add: filter_empty_conv)
  also have "filter ?P (drop k S) = drop k S"
    using disj by (intro filter_True) blast
  finally show ?thesis by simp
qed

lemma length_filter_sort_key: "length (filter P (sort_key f xs)) = length (filter P xs)"
  by (simp add: filter_sort)

lemma distinct_map_sort_key: "distinct (map g (sort_key f xs)) = distinct (map g xs)"
  by (simp add: distinct_map)

lemma pruned_snapshots:
  assumes "7 < length (filter is_snapshot d)"
  shows "filter is_snapshot (prune_old_results d 7) =
    filter (\<lambda>e. fname e \<notin> fname ` set (take (length (filter is_snapshot d) - 7)
             (sort_key mtime (filter is_snapshot d)))) (filter is_snapshot d)"
  using assms by (simp add: prune_unfold conj_commute)

lemma prune_le_7: "length (filter is_snapshot (prune_old_results d 7)) \<le> 7"
proof (cases "7 < length (filter is_snapshot d)")
  case False
  then show ?thesis by (simp add: prune_unfold)
next
  case True
  define F where "F = filter is_snapshot d"
  define S where "S = sort_key mtime F"
  define k where "k = length F - 7"
  have "length (filter is_snapshot (prune_old_results d 7)) =
      length (filter (\<lambda>e. fname e \<notin> fname ` set (take k S)) F)"
    by (simp only: pruned_snapshots [OF True] F_def S_def k_def)
  also have "\<dots> = length (filter (\<lambda>e. fname e \<notin> fname ` set (take k S)) S)"
    unfolding S_def by (rule length_filter_sort_key [symmetric])
  also have "\<dots> \<le> length S - k" by (rule filter_taken_le)
  also have "\<dots> = 7" using True by (simp add: S_def k_def F_def)
  finally show ?thesis .
qed

lemma prune_eq_7:
  assumes "distinct (map fname d)" and "7 < length (filter is_snapshot d)"
  shows "length (filter is_snapshot (prune_old_results d 7)) = 7"
proof -
  define F where "F = filter is_snapshot d"
  define S where "S = sort_key mtime F"
  define k where "k = length F - 7"
  from assms(1) have "distinct (map fname F)" unfolding F_def by (rule distinct_map_filter)
  then have dS: "distinct (map fname S)" by (simp only: S_def distinct_map_sort_key)
  have "length (filter is_snapshot (prune_old_results d 7)) =
      length (filter (\<lambda>e. fname e \<notin> fname ` set (take k S)) F)"
    by (simp only: pruned_snapshots [OF assms(2)] F_def S_def k_def)
  also have "\<dots> = length (filter (\<lambda>e. fname e \<notin> fname ` set (take k S)) S)"
    unfolding S_def by (rule length_filter_sort_key [symmetric])
  also have "\<dots> = length (drop k S)" by (simp only: filter_taken_eq [OF dS])
  also have "\<dots> = 7" using assms(2) by (simp add: S_def k_def F_def)
  finally show ?thesis .
qed

lemma prune_idem: "prune_old_results (prune_old_results d 7) 7 = prune_old_results d 7"
  by (rule prune_noop) (rule prune_le_7)

lemma prune_others:
  "filter (\<lambda>e. \<not> is_snapshot e) (prune_old_results d 7) = filter (\<lambda>e. \<not> is_snapshot e) d"
proof (cases "7 < length (filter is_snapshot d)")
  case False
  then show ?thesis by (simp add: prune_unfold)
next
  case True
  define R where "R = set (take (length (filter is_snapshot d) - 7)
    (sort_key mtime (filter is_snapshot d)))"
  have snap: "is_snapshot r" if "r \<in> R" for r
  proof -
    from that have "r \<in> set (sort_key mtime (filter is_snapshot d))"
      unfolding R_def by (rule in_set_takeD)
    then show ?thesis by simp
  qed
  have "filter (\<lambda>e. \<not> is_snapshot e) (filter (\<lambda>e. fname e \<notin> fname ` R) d) =
      filter (\<lambda>e. \<not> is_snapshot e) d"
    unfolding filter_filter
  proof (rule filter_cong [OF refl])
    fix e
    show "(fname e \<notin> fname ` R \<and> \<not> is_snapshot e) = (\<not> is_snapshot e)"
      using snap is_snapshot_fname [of e] by blast
  qed
  with True show ?thesis by (simp add: prune_unfold R_def)
qed

lemma prune_subset: "set (prune_old_results d 7) \<subseteq> set d"
  by (simp add: prune_unfold)

lemma prune_oldest:
  assumes dist: "distinct (map fname d)"
    and x: "x \<in> set d" "is_snapshot x" "x \<notin> set (prune_old_results d 7)"
    and y: "y \<in> set (prune_old_results d 7)" "is_snapshot y"
  shows "mtime x \<le> mtime y"
proof -
  define F where "F = filter is_snapshot d"
  define S where "S = sort_key mtime F"
  define k where "k = length F - 7"
  have big: "7 < length (filter is_snapshot d)"
  proof (rule ccontr)
    assume "\<not> 7 < length (filter is_snapshot d)"
    then have "prune_old_results d 7 = d" by (simp add: prune_unfold)
    with x show False by simp
  qed
  then have p: "prune_old_results d 7 = filter (\<lambda>e. fname e \<notin> fname ` set (take k S)) d"
    by (simp add: prune_unfold F_def S_def k_def)
  have sub: "set (take k S) \<subseteq> set d"
  proof
    fix r assume "r \<in> set (take k S)"
    then have "r \<in> set S" by (rule in_set_takeD)
    then show "r \<in> set d" by (simp add: S_def F_def)
  qed
  from dist have inj: "inj_on fname (set d)" by (simp add: distinct_map)
  from x(1,3) have "fname x \<in> fname ` set (take k S)" by (simp add: p)
  then obtain r where r: "r \<in> set (take k S)" "fname x = fname r" by (rule imageE)
  with sub x(1) inj have "x = r" by (meson inj_onD subsetD)
  with r have xs: "x \<in> set (take k S)" by simp
  from y(1) have yd: "y \<in> set d" and yn: "fname y \<notin> fname ` set (take k S)"
    by (simp_all add: p)
  from yn have "y \<notin> set (take k S)" by (rule contrapos_nn) (rule imageI)
  moreover from yd y(2) have "y \<in> set S" by (simp add: S_def F_def)
  moreover have "set S = set (take k S) \<union> set (drop k S)"
    by (simp only: set_append [symmetric] append_take_drop_id)
  ultimately have ys: "y \<in> set (drop k S)" by blast
  have "sorted (map mtime (take k S @ drop k S))" by (simp add: S_def)
  then have "\<forall>a\<in>set (map mtime (take k S)). \<forall>b\<in>set (map mtime (drop k S)). a \<le> b"
    unfolding map_append sorted_append by (elim conjE)
  with xs ys show ?thesis by simp
qed

lemma write_file_names:
  "map fname (write_file d name text t) =
     (if name \<in> fname ` set d then map fname d else map fname d @ [name])"
proof -
  have "map fname (map (\<lambda>e. if fname e = name then e\<lparr>mtime := t, content := text\<rparr> else e) d) =
      map fname d"
    by (induction d) simp_all
  then show ?thesis by (simp add: write_file_def)
qed

lemma write_file_distinct:
  "distinct (map fname d) \<Longrightarrow> distinct (map fname (write_file d name text t))"
  by (simp add: write_file_names)

lemma write_file_snapshots:
  "length (filter is_snapshot d) \<le> length (filter is_snapshot (write_file d name text t))"
proof -
  have "length (filter is_snapshot
      (map (\<lambda>e. if fname e = name then e\<lparr>mtime := t, content := text\<rparr> else e) d)) =
      length (filter is_snapshot d)"
    by (induction d) (simp_all add: is_snapshot_def)
  then show ?thesis by (simp add: write_file_def)
qed

lemma save_is_prune:
  "save_recommended_results q now t dir =
     prune_old_results
       (write_file (case dir of None \<Rightarrow> [] | Some d \<Rightarrow> d)
          (''results_'' @ strftime now @ ''.txt'')
          (foldl (\<lambda>f stock. f @ stock @ newline)
             (''Stocks meeting Walter Schloss criteria:'' @ newline) q) t) 7"
  by (simp add: save_recommended_results_def Let_def)

lemma save_le_7: "length (filter is_snapshot (save_recommended_results q now t dir)) \<le> 7"
  by (simp only: save_is_prune prune_le_7)

lemma save_eq_7:
  assumes "distinct (map fname d)" and "7 \<le> length (filter is_snapshot d)"
  shows "length (filter is_snapshot (save_recommended_results q now t (Some d))) = 7"
proof -
  define body where "body = foldl (\<lambda>f stock. f @ stock @ newline)
    (''Stocks meeting Walter Schloss criteria:'' @ newline) q"
  define d' where "d' = write_file d (''results_'' @ strftime now @ ''.txt'') body t"
  have s: "save_recommended_results q now t (Some d) = prune_old_results d' 7"
    by (simp only: save_is_prune d'_def body_def option.case)
  have dist: "distinct (map fname d')"
    unfolding d'_def using assms(1) by (rule write_file_distinct)
  have "length (filter is_snapshot d) \<le> length (filter is_snapshot d')"
    unfolding d'_def by (rule write_file_snapshots)
  with assms(2) have ge: "7 \<le> length (filter is_snapshot d')" by simp
  have "length (filter is_snapshot (prune_old_results d' 7)) = 7"
  proof (cases "7 < length (filter is_snapshot d')")
    case True
    with dist show ?thesis by (rule prune_eq_7)
  next
    case False
    with ge have "length (filter is_snapshot d') = 7" by simp
    then show ?thesis by (simp add: prune_noop)
  qed
  then show ?thesis by (simp only: s)
qed

text \<open>
  Claim C7. After \<^verbatim>\<open>save_recommended_results\<close> at most seven snapshots are in the
  folder, whatever was there before, and exactly seven if seven or more were there
  under distinct names. The folder it prunes has distinct names again. Pruning a
  folder of distinct names with more than seven snapshots leaves exactly seven; each
  snapshot it removes is at most as recent as each snapshot it keeps; it adds nothing
  and leaves the files that are no snapshots as they are. Pruning a folder with seven
  snapshots or fewer changes nothing, and pruning twice is pruning once.
\<close>

theorem save_recommended_results_keeps_seven:
  assumes "distinct (map fname d)"
  shows "length (filter is_snapshot (save_recommended_results q now t dir)) \<le> 7 \<and>
    (7 \<le> length (filter is_snapshot d) \<longrightarrow>
       length (filter is_snapshot (save_recommended_results q now t (Some d))) = 7) \<and>
    distinct (map fname (write_file d name body t)) \<and>
    (7 < length (filter is_snapshot d) \<longrightarrow>
       length (filter is_snapshot (prune_old_results d 7)) = 7) \<and>
    (\<forall>x\<in>set d. \<forall>y\<in>set (prune_old_results d 7).
       is_snapshot x \<and> is_snapshot y \<and> x \<notin> set (prune_old_results d 7) \<longrightarrow>
       mtime x \<le> mtime y) \<and>
    set (prune_old_results d 7) \<subseteq> set d \<and>
    filter (\<lambda>e. \<not> is_snapshot e) (prune_old_results d 7) = filter (\<lambda>e. \<not> is_snapshot e) d \<and>
    (length (filter is_snapshot d') \<le> 7 \<longrightarrow> prune_old_results d' 7 = d') \<and>
    prune_old_results (prune_old_results d' 7) 7 = prune_old_results d' 7"
proof (intro conjI impI ballI)
  show "length (filter is_snapshot (save_recommended_results q now t dir)) \<le> 7"
    by (rule save_le_7)
  show "length (filter is_snapshot (save_recommended_results q now t (Some d))) = 7"
    if "7 \<le> length (filter is_snapshot d)"
    using assms that by (rule save_eq_7)
  show "distinct (map fname (write_file d name body t))"
    using assms by (rule write_file_distinct)
  show "length (filter is_snapshot (prune_old_results d 7)) = 7"
    if "7 < length (filter is_snapshot d)"
    using assms that by (rule prune_eq_7)
  show "mtime x \<le> mtime y"
    if "x \<in> set d" "y \<in> set (prune_old_results d 7)"
      "is_snapshot x \<and> is_snapshot y \<and> x \<notin> set (prune_old_results d 7)" for x y
    using that prune_oldest [OF assms, of x y] by simp
  show "set (prune_old_results d 7) \<subseteq> set d" by (rule prune_subset)
  show "filter (\<lambda>e. \<not> is_snapshot e) (prune_old_results d 7) = filter (\<lambda>e. \<not> is_snapshot e) d"
    by (rule prune_others)
  show "prune_old_results d' 7 = d'" if "length (filter is_snapshot d') \<le> 7"
    using that by (rule prune_noop)
  show "prune_old_results (prune_old_results d' 7) 7 = prune_old_results d' 7"
    by (rule prune_idem)
qed

lemma sample_names:
  "map fname sample_folder =
     [''results_20240223_180000.txt'', ''results_20240220_180000.txt'',
      ''results_20240228_180000.txt'', ''notes.txt'', ''results_20240221_180000.txt'',
      ''results_20240226_180000.txt'', ''results_20240229_180000.txt'',
      ''results_20240222_180000.txt'', ''results_20240225_180000.txt'',
      ''results_20240224_180000.txt'', ''results_20240227_180000.txt'']"
  by (simp add: sample_folder_def stored_def)

lemma sample_distinct: "distinct (map fname sample_folder)"
  unfolding sample_names by simp

lemma sample_snapshots: "length (filter is_snapshot sample_folder) = 10"
  by (simp add: sample_folder_def stored_def is_snapshot_def ends_with_def)

lemma sample_saved:
  "map fname (save_recommended_results [''AAA''] some_evening 40 (Some sample_folder)) =
     [''results_20240228_180000.txt'', ''notes.txt'', ''results_20240226_180000.txt'',
      ''results_20240229_180000.txt'', ''results_20240225_180000.txt'',
      ''results_20240224_180000.txt'', ''results_20240227_180000.txt'',
      ''results_20240309_180500.txt'']"
  by (simp add: save_is_prune prune_unfold strftime_some_evening write_file_def
      sample_folder_def stored_def is_snapshot_def ends_with_def)

text \<open>
  Claim C7 at a folder with ten snapshots and one other file: the save adds an eleventh
  snapshot and the four oldest go.
\<close>

theorem save_recommended_results_keeps_seven_witness:
  "distinct (map fname sample_folder) \<and>
   length (filter is_snapshot sample_folder) = 10 \<and>
   length (filter is_snapshot (prune_old_results sample_folder 7)) = 7 \<and>
   length (filter is_snapshot
     (save_recommended_results [''AAA''] some_evening 40 (Some sample_folder))) = 7 \<and>
   map fname (save_recommended_results [''AAA''] some_evening 40 (Some sample_folder)) =
     [''results_20240228_180000.txt'', ''notes.txt'', ''results_20240226_180000.txt'',
      ''results_20240229_180000.txt'', ''results_20240225_180000.txt'',
      ''results_20240224_180000.txt'', ''results_20240227_180000.txt'',
      ''results_20240309_180500.txt''] \<and>
   prune_old_results
     (save_recommended_results [''AAA''] some_evening 40 (Some sample_folder)) 7 =
     save_recommended_results [''AAA''] some_evening 40 (Some sample_folder)"
proof -
  note r = save_recommended_results_keeps_seven [OF sample_distinct,
    where q = "[''AAA'']" and now = some_evening and t = 40 and dir = "Some sample_folder"
      and d' = "save_recommended_results [''AAA''] some_evening 40 (Some sample_folder)"]
  note le = r [THEN conjunct1]
    and eq = r [THEN conjunct2, THEN conjunct1]
    and big = r [THEN conjunct2, THEN conjunct2, THEN conjunct2, THEN conjunct1]
    and noop = r [THEN conjunct2, THEN conjunct2, THEN conjunct2, THEN conjunct2,
      THEN conjunct2, THEN conjunct2, THEN conjunct2, THEN conjunct1]
  from eq have A: "length (filter is_snapshot
     (save_recommended_results [''AAA''] some_evening 40 (Some sample_folder))) = 7"
    by (simp add: sample_snapshots)
  from big have C: "length (filter is_snapshot (prune_old_results sample_folder 7)) = 7"
    by (simp add: sample_snapshots)
  from noop le have B: "prune_old_results
     (save_recommended_results [''AAA''] some_evening 40 (Some sample_folder)) 7 =
     save_recommended_results [''AAA''] some_evening 40 (Some sample_folder)"
    by (rule mp)
  from sample_distinct sample_snapshots C A sample_saved B show ?thesis by (intro conjI)
qed

end
